theory Spec2Isabelle
  imports Main
begin

text \<open>
  The connection manager of the TrackAudio plugin (\<^verbatim>\<open>trackAudioManager.ts\<close>), the type
  guards of its messages module, and the letter of the ATIS controller, as functions on
  explicit states; then what holds of them.
\<close>

section \<open>JavaScript strings, JSON values and the runtime's JSON functions\<close>

text \<open>
  A JavaScript string is a sequence of UTF-16 code units. A code unit is a natural number
  here; no function below depends on its being less than \<open>65536\<close>. \<open>js\<close> is the
  string of a literal of the source.
\<close>

type_synonym jsstring = "nat list"

definition cu :: "char \<Rightarrow> nat" where
  "cu c = of_char c"

definition js :: "string \<Rightarrow> jsstring" where
  "js cs = map cu cs"

text \<open>
  A decoded frame is a JavaScript value built by \<^verbatim>\<open>JSON.parse\<close>. A number is kept as
  its lexeme: no function of the manager computes with it. An object is the list of its
  members in the order of the text; a later member of the same name wins, as it does in
  JavaScript.
\<close>

datatype json =
    JNull
  | JBool bool
  | JNumber jsstring
  | JString jsstring
  | JArray "json list"
  | JObject "(jsstring \<times> json) list"

text \<open>What the code can throw.\<close>

datatype error =
    SyntaxError
  | TypeError
  | Error string

text \<open>
  A call that can throw returns \<open>Inl (e, s)\<close>, the exception with the state at the moment
  of the throw, or \<open>Inr s\<close>, the state at the normal return.
\<close>

type_synonym 's result = "(error \<times> 's) + 's"

definition final :: "'s result \<Rightarrow> 's" where
  "final r = (case r of Inl (e, s) \<Rightarrow> s | Inr s \<Rightarrow> s)"

definition returns :: "'s result \<Rightarrow> bool" where
  "returns r = (case r of Inl x \<Rightarrow> False | Inr s \<Rightarrow> True)"

subsection \<open>\<^verbatim>\<open>JSON.parse\<close>\<close>

text \<open>White space is the space, the tab, the line feed and the carriage return.\<close>

definition is_ws :: "nat \<Rightarrow> bool" where
  "is_ws c = (c = 0x20 \<or> c = 0x09 \<or> c = 0x0A \<or> c = 0x0D)"

definition skip_ws :: "jsstring \<Rightarrow> jsstring" where
  "skip_ws cs = dropWhile is_ws cs"

definition is_digit :: "nat \<Rightarrow> bool" where
  "is_digit c = (0x30 \<le> c \<and> c \<le> 0x39)"

definition hex_val :: "nat \<Rightarrow> nat option" where
  "hex_val c =
     (if 0x30 \<le> c \<and> c \<le> 0x39 then Some (c - 0x30)
      else if 0x41 \<le> c \<and> c \<le> 0x46 then Some (c - 0x37)
      else if 0x61 \<le> c \<and> c \<le> 0x66 then Some (c - 0x57)
      else None)"

text \<open>
  The single-character escapes: the double quote (\<open>0x22\<close>), the backslash (\<open>0x5C\<close>),
  the slash, and \<open>b\<close>, \<open>f\<close>, \<open>n\<close>, \<open>r\<close>, \<open>t\<close>.
\<close>

definition unescape :: "nat \<Rightarrow> nat option" where
  "unescape e =
     (if e = 0x22 then Some 0x22
      else if e = 0x5C then Some 0x5C
      else if e = cu CHR ''/'' then Some (cu CHR ''/'')
      else if e = cu CHR ''b'' then Some 0x08
      else if e = cu CHR ''f'' then Some 0x0C
      else if e = cu CHR ''n'' then Some 0x0A
      else if e = cu CHR ''r'' then Some 0x0D
      else if e = cu CHR ''t'' then Some 0x09
      else None)"

definition cons_unit :: "nat \<Rightarrow> (jsstring \<times> jsstring) option \<Rightarrow> (jsstring \<times> jsstring) option" where
  "cons_unit c r = (case r of None \<Rightarrow> None | Some (x, rest) \<Rightarrow> Some (c # x, rest))"

text \<open>
  The characters of a string literal after its opening quote, up to the closing quote:
  any code unit but the quote, the backslash and the controls below \<open>0x20\<close>, or an
  escape; \<open>\u\<close> with four hexadecimal digits is the code unit of that value.
\<close>

fun parse_chars :: "jsstring \<Rightarrow> (jsstring \<times> jsstring) option" where
  "parse_chars [] = None"
| "parse_chars (c # cs) =
     (if c = 0x22 then Some ([], cs)
      else if c = 0x5C then
        (case cs of
           [] \<Rightarrow> None
         | e # r \<Rightarrow>
             (if e = cu CHR ''u'' then
                (case r of
                   a # b # c' # d # r' \<Rightarrow>
                     (case (hex_val a, hex_val b, hex_val c', hex_val d) of
                        (Some h3, Some h2, Some h1, Some h0) \<Rightarrow>
                          cons_unit (((h3 * 16 + h2) * 16 + h1) * 16 + h0) (parse_chars r')
                      | _ \<Rightarrow> None)
                 | _ \<Rightarrow> None)
              else
                (case unescape e of
                   None \<Rightarrow> None
                 | Some u \<Rightarrow> cons_unit u (parse_chars r))))
      else if c < 0x20 then None
      else cons_unit c (parse_chars cs))"

fun strip_prefix :: "jsstring \<Rightarrow> jsstring \<Rightarrow> jsstring option" where
  "strip_prefix [] cs = Some cs"
| "strip_prefix (p # ps) [] = None"
| "strip_prefix (p # ps) (c # cs) = (if p = c then strip_prefix ps cs else None)"

definition keyword :: "jsstring \<Rightarrow> json \<Rightarrow> jsstring \<Rightarrow> (json \<times> jsstring) option" where
  "keyword w v cs = (case strip_prefix w cs of None \<Rightarrow> None | Some rest \<Rightarrow> Some (v, rest))"

definition parse_frac :: "jsstring \<Rightarrow> (jsstring \<times> jsstring) option" where
  "parse_frac cs =
     (case cs of
        [] \<Rightarrow> Some ([], cs)
      | c # r \<Rightarrow>
          if c = cu CHR ''.'' then
            (if takeWhile is_digit r = [] then None
             else Some (c # takeWhile is_digit r, dropWhile is_digit r))
          else Some ([], cs))"

definition parse_exp :: "jsstring \<Rightarrow> (jsstring \<times> jsstring) option" where
  "parse_exp cs =
     (case cs of
        [] \<Rightarrow> Some ([], cs)
      | c # r \<Rightarrow>
          if c = cu CHR ''e'' \<or> c = cu CHR ''E'' then
            (let (sign, r1) =
                   (case r of
                      [] \<Rightarrow> ([], r)
                    | g # r' \<Rightarrow>
                        if g = cu CHR ''+'' \<or> g = cu CHR ''-'' then ([g], r') else ([], r))
             in if takeWhile is_digit r1 = [] then None
                else Some (c # sign @ takeWhile is_digit r1, dropWhile is_digit r1))
          else Some ([], cs))"

text \<open>
  A number: its lexeme and the rest of the text. The integer part is \<open>0\<close> or starts
  with a digit that is not \<open>0\<close>.
\<close>

definition parse_number :: "jsstring \<Rightarrow> (jsstring \<times> jsstring) option" where
  "parse_number cs =
     (let (sign, r0) =
            (case cs of
               [] \<Rightarrow> ([], cs)
             | c # r \<Rightarrow> if c = cu CHR ''-'' then ([c], r) else ([], cs));
          ip = takeWhile is_digit r0;
          r1 = dropWhile is_digit r0
      in if ip = [] \<or> (take 1 ip = js ''0'' \<and> 1 < length ip) then None
         else
           (case parse_frac r1 of
              None \<Rightarrow> None
            | Some (fr, r2) \<Rightarrow>
                (case parse_exp r2 of
                   None \<Rightarrow> None
                 | Some (ex, r3) \<Rightarrow> Some (sign @ ip @ fr @ ex, r3))))"

definition with_value :: "('a \<Rightarrow> 'b) \<Rightarrow> ('a \<times> jsstring) option \<Rightarrow> ('b \<times> jsstring) option" where
  "with_value f r = (case r of None \<Rightarrow> None | Some (x, rest) \<Rightarrow> Some (f x, rest))"

text \<open>
  The recursive descent over values, array elements and object members. The first
  argument bounds the depth of the calls; every call but one in two consumes a code unit,
  so twice the length of the text is enough.
\<close>

fun parse_value :: "nat \<Rightarrow> jsstring \<Rightarrow> (json \<times> jsstring) option"
  and parse_elements :: "nat \<Rightarrow> jsstring \<Rightarrow> (json list \<times> jsstring) option"
  and parse_members :: "nat \<Rightarrow> jsstring \<Rightarrow> ((jsstring \<times> json) list \<times> jsstring) option"
where
  "parse_value 0 cs = None"
| "parse_value (Suc n) cs =
     (case cs of
        [] \<Rightarrow> None
      | c # r \<Rightarrow>
          if c = cu CHR ''{'' then
            (case skip_ws r of
               [] \<Rightarrow> None
             | c2 # r2 \<Rightarrow>
                 if c2 = cu CHR ''}'' then Some (JObject [], r2)
                 else with_value JObject (parse_members n (c2 # r2)))
          else if c = cu CHR ''['' then
            (case skip_ws r of
               [] \<Rightarrow> None
             | c2 # r2 \<Rightarrow>
                 if c2 = cu CHR '']'' then Some (JArray [], r2)
                 else with_value JArray (parse_elements n (c2 # r2)))
          else if c = 0x22 then with_value JString (parse_chars r)
          else if c = cu CHR ''t'' then keyword (js ''rue'') (JBool True) r
          else if c = cu CHR ''f'' then keyword (js ''alse'') (JBool False) r
          else if c = cu CHR ''n'' then keyword (js ''ull'') JNull r
          else with_value JNumber (parse_number cs))"
| "parse_elements 0 cs = None"
| "parse_elements (Suc n) cs =
     (case parse_value n cs of
        None \<Rightarrow> None
      | Some (v, r) \<Rightarrow>
          (case skip_ws r of
             [] \<Rightarrow> None
           | c # r2 \<Rightarrow>
               if c = cu CHR '','' then with_value (Cons v) (parse_elements n (skip_ws r2))
               else if c = cu CHR '']'' then Some ([v], r2)
               else None))"
| "parse_members 0 cs = None"
| "parse_members (Suc n) cs =
     (case cs of
        [] \<Rightarrow> None
      | c # r \<Rightarrow>
          if c = 0x22 then
            (case parse_chars r of
               None \<Rightarrow> None
             | Some (k, r1) \<Rightarrow>
                 (case skip_ws r1 of
                    [] \<Rightarrow> None
                  | c1 # r2 \<Rightarrow>
                      if c1 = cu CHR '':'' then
                        (case parse_value n (skip_ws r2) of
                           None \<Rightarrow> None
                         | Some (v, r3) \<Rightarrow>
                             (case skip_ws r3 of
                                [] \<Rightarrow> None
                              | c3 # r4 \<Rightarrow>
                                  if c3 = cu CHR '','' then
                                    with_value (Cons (k, v)) (parse_members n (skip_ws r4))
                                  else if c3 = cu CHR ''}'' then Some ([(k, v)], r4)
                                  else None))
                      else None))
          else None)"

text \<open>\<^verbatim>\<open>JSON.parse(text)\<close>: the value, or \<open>None\<close> where JavaScript throws a SyntaxError.\<close>

definition JSON_parse :: "jsstring \<Rightarrow> json option" where
  "JSON_parse text =
     (case parse_value (Suc (2 * length text)) (skip_ws text) of
        None \<Rightarrow> None
      | Some (v, rest) \<Rightarrow> if skip_ws rest = [] then Some v else None)"

subsection \<open>\<^verbatim>\<open>JSON.stringify\<close>\<close>

definition hex_digit :: "nat \<Rightarrow> nat" where
  "hex_digit n = (if n < 10 then 0x30 + n else 0x57 + n)"

text \<open>
  Inside a string the quote and the backslash are escaped, the controls below \<open>0x20\<close>
  are written with their short escape or as \<open>\u00XX\<close>, and a lone surrogate as
  \<open>\uXXXX\<close>; every other code unit stands for itself. The surrogates of a pair stand
  for themselves, so a surrogate is lone when no partner is next to it.
\<close>

definition escape_unit :: "nat \<Rightarrow> jsstring" where
  "escape_unit c =
     (if c = 0x22 then [0x5C, 0x22]
      else if c = 0x5C then [0x5C, 0x5C]
      else if c = 0x08 then [0x5C, cu CHR ''b'']
      else if c = 0x0C then [0x5C, cu CHR ''f'']
      else if c = 0x0A then [0x5C, cu CHR ''n'']
      else if c = 0x0D then [0x5C, cu CHR ''r'']
      else if c = 0x09 then [0x5C, cu CHR ''t'']
      else [c])"

definition escape_u :: "nat \<Rightarrow> jsstring" where
  "escape_u c =
     [0x5C, cu CHR ''u'', hex_digit (c div 4096 mod 16), hex_digit (c div 256 mod 16),
      hex_digit (c div 16 mod 16), hex_digit (c mod 16)]"

definition is_high :: "nat \<Rightarrow> bool" where
  "is_high c = (0xD800 \<le> c \<and> c \<le> 0xDBFF)"

definition is_low :: "nat \<Rightarrow> bool" where
  "is_low c = (0xDC00 \<le> c \<and> c \<le> 0xDFFF)"

fun quote_units :: "jsstring \<Rightarrow> jsstring" where
  "quote_units [] = []"
| "quote_units [c] =
     (if c < 0x20 \<and> escape_unit c = [c] then escape_u c
      else if is_high c \<or> is_low c then escape_u c
      else escape_unit c)"
| "quote_units (c # d # cs) =
     (if c < 0x20 \<and> escape_unit c = [c] then escape_u c @ quote_units (d # cs)
      else if is_high c \<and> is_low d then c # d # quote_units cs
      else if is_high c \<or> is_low c then escape_u c @ quote_units (d # cs)
      else escape_unit c @ quote_units (d # cs))"

definition quote :: "jsstring \<Rightarrow> jsstring" where
  "quote cs = [0x22] @ quote_units cs @ [0x22]"

fun commas :: "jsstring list \<Rightarrow> jsstring" where
  "commas [] = []"
| "commas [x] = x"
| "commas (x # y # ys) = x @ js '','' @ commas (y # ys)"

fun JSON_stringify :: "json \<Rightarrow> jsstring" where
  "JSON_stringify JNull = js ''null''"
| "JSON_stringify (JBool b) = (if b then js ''true'' else js ''false'')"
| "JSON_stringify (JNumber lexeme) = lexeme"
| "JSON_stringify (JString cs) = quote cs"
| "JSON_stringify (JArray vs) = js ''['' @ commas (map JSON_stringify vs) @ js '']''"
| "JSON_stringify (JObject kvs) =
     js ''{'' @ commas (map (\<lambda>(k, v). quote k @ js '':'' @ JSON_stringify v) kvs) @ js ''}''"

text \<open>
  Reading a property of a decoded value, \<^verbatim>\<open>data.name\<close>: a TypeError on \<^verbatim>\<open>null\<close>,
  the last member of that name on an object, and \<^verbatim>\<open>undefined\<close> (\<open>None\<close>) on an object
  without it and on a boolean, a number, a string or an array (none of the names read
  here is a property of their prototypes).
\<close>

fun get_property :: "json \<Rightarrow> jsstring \<Rightarrow> error + json option" where
  "get_property JNull name = Inl TypeError"
| "get_property (JObject kvs) name = Inr (map_of (rev kvs) name)"
| "get_property v name = Inr None"

section \<open>The runtime: timers, sockets, the console, emitted events\<close>

text \<open>
  The timers of the event loop: the pending ones, each with the identity that
  \<^verbatim>\<open>setTimeout\<close> returned and its delay in milliseconds, and the next fresh identity.
  A timer leaves the pending list when it is cleared and when it expires.
\<close>

record runtime =
  timers :: "(nat \<times> nat) list"
  timer_seq :: nat

definition setTimeout :: "nat \<Rightarrow> 'a runtime_scheme \<Rightarrow> nat \<times> 'a runtime_scheme" where
  "setTimeout delay s =
     (timer_seq s, s\<lparr>timers := timers s @ [(timer_seq s, delay)], timer_seq := Suc (timer_seq s)\<rparr>)"

definition clearTimeout :: "nat \<Rightarrow> 'a runtime_scheme \<Rightarrow> 'a runtime_scheme" where
  "clearTimeout t s = s\<lparr>timers := filter (\<lambda>p. fst p \<noteq> t) (timers s)\<rparr>"

definition expire :: "nat \<Rightarrow> 'a runtime_scheme \<Rightarrow> 'a runtime_scheme" where
  "expire t s = s\<lparr>timers := filter (\<lambda>p. fst p \<noteq> t) (timers s)\<rparr>"

definition pending :: "nat \<Rightarrow> 'a runtime_scheme \<Rightarrow> bool" where
  "pending t s = (t \<in> fst ` set (timers s))"

text \<open>
  The transport is the \<^verbatim>\<open>ws\<close> library's WebSocket. The model keeps of a socket what the
  manager reads and writes: the url it was opened with, its \<^verbatim>\<open>readyState\<close>, the events
  a listener was registered for with \<^verbatim>\<open>on\<close>, and the frames handed to \<^verbatim>\<open>send\<close>.
\<close>

datatype readyState = CONNECTING | OPEN | CLOSING | CLOSED

record WebSocket =
  ws_url :: jsstring
  readyState :: readyState
  listeners :: "string list"
  sent :: "jsstring list"

datatype console_line = ConsoleLog jsstring | ConsoleWarn jsstring | ConsoleError jsstring

section \<open>TrackAudioManager\<close>

text \<open>
  The fields of the class (\<open>socket\<close>, \<open>reconnectInterval\<close>, \<open>url\<close>, \<open>reconnectTimer\<close>)
  and what its methods act on: the sockets ever constructed, a socket's identity being
  its index; the events emitted to the manager's subscribers; the console. The manager is
  a singleton, so one record is both \<^verbatim>\<open>this\<close> and \<^verbatim>\<open>TrackAudioManager.instance\<close>.
\<close>

record TrackAudioManager = runtime +
  socket :: "nat option"
  reconnectInterval :: nat
  url :: jsstring
  reconnectTimer :: "nat option"
  sockets :: "WebSocket list"
  emitted :: "(string \<times> json option) list"
  console :: "console_line list"

definition new_TrackAudioManager :: TrackAudioManager where
  "new_TrackAudioManager =
     \<lparr>timers = [], timer_seq = 0,
      socket = None, reconnectInterval = 1000 * 5, url = js ''ws://localhost:49080/ws'',
      reconnectTimer = None, sockets = [], emitted = [], console = []\<rparr>"

definition console_log :: "jsstring \<Rightarrow> TrackAudioManager \<Rightarrow> TrackAudioManager" where
  "console_log line s = s\<lparr>console := console s @ [ConsoleLog line]\<rparr>"

definition console_warn :: "jsstring \<Rightarrow> TrackAudioManager \<Rightarrow> TrackAudioManager" where
  "console_warn line s = s\<lparr>console := console s @ [ConsoleWarn line]\<rparr>"

definition console_error :: "jsstring \<Rightarrow> TrackAudioManager \<Rightarrow> TrackAudioManager" where
  "console_error line s = s\<lparr>console := console s @ [ConsoleError line]\<rparr>"

text \<open>
  \<^verbatim>\<open>emit\<close> records the event and its payload. The listeners are the subscribers' code,
  outside the manager; a call they make on the manager is a call of the run below, after
  the listener of the socket that emitted has returned.
\<close>

definition emit :: "string \<Rightarrow> json option \<Rightarrow> TrackAudioManager \<Rightarrow> TrackAudioManager" where
  "emit name payload s = s\<lparr>emitted := emitted s @ [(name, payload)]\<rparr>"

subsection \<open>The transport's operations\<close>

definition socket_at :: "nat \<Rightarrow> TrackAudioManager \<Rightarrow> WebSocket option" where
  "socket_at sid s = (if sid < length (sockets s) then Some (sockets s ! sid) else None)"

definition map_socket :: "nat \<Rightarrow> (WebSocket \<Rightarrow> WebSocket) \<Rightarrow> TrackAudioManager \<Rightarrow> TrackAudioManager" where
  "map_socket sid f s = s\<lparr>sockets := (sockets s)[sid := f (sockets s ! sid)]\<rparr>"

text \<open>
  \<^verbatim>\<open>new WebSocket(url)\<close>: the constructor throws a SyntaxError on a url it does not
  accept, and otherwise makes a socket in state CONNECTING with no listener. Which urls
  the library accepts is not written out here: \<open>valid_url\<close> stands for its test, and
  every function that constructs a socket takes it as its first argument.
\<close>

definition new_WebSocket ::
  "(jsstring \<Rightarrow> bool) \<Rightarrow> jsstring \<Rightarrow> TrackAudioManager \<Rightarrow> error + nat \<times> TrackAudioManager" where
  "new_WebSocket valid_url u s =
     (if valid_url u then
        Inr (length (sockets s),
             s\<lparr>sockets := sockets s @
                [\<lparr>ws_url = u, readyState = CONNECTING, listeners = [], sent = []\<rparr>]\<rparr>)
      else Inl SyntaxError)"

definition on :: "nat \<Rightarrow> string \<Rightarrow> TrackAudioManager \<Rightarrow> TrackAudioManager" where
  "on sid name s = map_socket sid (\<lambda>w. w\<lparr>listeners := listeners w @ [name]\<rparr>) s"

text \<open>\<^verbatim>\<open>socket.close()\<close>: nothing on a closed socket, otherwise the socket is CLOSING.\<close>

definition ws_close :: "nat \<Rightarrow> TrackAudioManager \<Rightarrow> TrackAudioManager" where
  "ws_close sid s =
     map_socket sid (\<lambda>w. if readyState w = CLOSED then w else w\<lparr>readyState := CLOSING\<rparr>) s"

definition ws_send :: "nat \<Rightarrow> jsstring \<Rightarrow> TrackAudioManager \<Rightarrow> TrackAudioManager" where
  "ws_send sid frame s = map_socket sid (\<lambda>w. w\<lparr>sent := sent w @ [frame]\<rparr>) s"

subsection \<open>The type guards of the messages module\<close>

text \<open>Each guard is \<^verbatim>\<open>message.type === tag\<close>; reading the property can throw.\<close>

definition type_is :: "json \<Rightarrow> string \<Rightarrow> error + bool" where
  "type_is message tag =
     (case get_property message (js ''type'') of
        Inl e \<Rightarrow> Inl e
      | Inr t \<Rightarrow> Inr (t = Some (JString (js tag))))"

definition isFrequencyStateUpdate :: "json \<Rightarrow> error + bool" where
  "isFrequencyStateUpdate message = type_is message ''kFrequencyStateUpdate''"

definition isStationStateUpdate :: "json \<Rightarrow> error + bool" where
  "isStationStateUpdate message = type_is message ''kStationStateUpdate''"

definition isStationStates :: "json \<Rightarrow> error + bool" where
  "isStationStates message = type_is message ''kStationStates''"

definition isRxBegin :: "json \<Rightarrow> error + bool" where
  "isRxBegin message = type_is message ''kRxBegin''"

definition isRxEnd :: "json \<Rightarrow> error + bool" where
  "isRxEnd message = type_is message ''kRxEnd''"

definition isTxBegin :: "json \<Rightarrow> error + bool" where
  "isTxBegin message = type_is message ''kTxBegin''"

definition isTxEnd :: "json \<Rightarrow> error + bool" where
  "isTxEnd message = type_is message ''kTxEnd''"

subsection \<open>The methods of the manager\<close>

definition setUrl :: "jsstring \<Rightarrow> TrackAudioManager \<Rightarrow> TrackAudioManager" where
  "setUrl u s = s\<lparr>url := u\<rparr>"

text \<open>\<^verbatim>\<open>this.socket && this.socket.readyState !== WebSocket.CLOSED\<close>\<close>

definition socket_in_use :: "TrackAudioManager \<Rightarrow> bool" where
  "socket_in_use s =
     (case socket s of
        None \<Rightarrow> False
      | Some sid \<Rightarrow>
          (case socket_at sid s of
             None \<Rightarrow> False
           | Some w \<Rightarrow> readyState w \<noteq> CLOSED))"

text \<open>\<^verbatim>\<open>this.socket && this.socket.readyState === WebSocket.OPEN\<close>\<close>

definition socket_is_open :: "TrackAudioManager \<Rightarrow> bool" where
  "socket_is_open s =
     (case socket s of
        None \<Rightarrow> False
      | Some sid \<Rightarrow>
          (case socket_at sid s of
             None \<Rightarrow> False
           | Some w \<Rightarrow> readyState w = OPEN))"

definition connect :: "(jsstring \<Rightarrow> bool) \<Rightarrow> TrackAudioManager \<Rightarrow> TrackAudioManager result" where
  "connect valid_url s =
     (if socket_in_use s then
        Inr (console_warn (js ''WebSocket is already connected or connecting.'') s)
      else
        (let s1 = (case reconnectTimer s of
                     None \<Rightarrow> s
                   | Some t \<Rightarrow> (clearTimeout t s)\<lparr>reconnectTimer := None\<rparr>)
         in case new_WebSocket valid_url (url s1) s1 of
              Inl e \<Rightarrow> Inl (e, s1)
            | Inr (sid, s2) \<Rightarrow>
                Inr (on sid ''message'' (on sid ''error'' (on sid ''close'' (on sid ''open''
                      (s2\<lparr>socket := Some sid\<rparr>)))))))"

definition reconnect :: "TrackAudioManager \<Rightarrow> TrackAudioManager" where
  "reconnect s =
     (case reconnectTimer s of
        Some t \<Rightarrow> s
      | None \<Rightarrow>
          (let (t, s1) = setTimeout (reconnectInterval s) s
           in s1\<lparr>reconnectTimer := Some t\<rparr>))"

definition disconnect :: "TrackAudioManager \<Rightarrow> TrackAudioManager" where
  "disconnect s =
     (let s1 = (case socket s of
                  None \<Rightarrow> s
                | Some sid \<Rightarrow> (ws_close sid s)\<lparr>socket := None\<rparr>)
      in case reconnectTimer s1 of
           None \<Rightarrow> s1
         | Some t \<Rightarrow> (clearTimeout t s1)\<lparr>reconnectTimer := None\<rparr>)"

definition send :: "json \<Rightarrow> TrackAudioManager \<Rightarrow> TrackAudioManager" where
  "send data s =
     (if socket_is_open s then
        (case socket s of
           None \<Rightarrow> s
         | Some sid \<Rightarrow> ws_send sid (JSON_stringify data) s)
      else console_warn (js ''WebSocket is not connected.'') s)"

text \<open>
  One arm of the chain of guards in \<open>processMessage\<close>: the guard throws, or holds and
  the arm is taken, or fails and the chain goes on.
\<close>

definition guarded :: "error + bool \<Rightarrow> 's \<Rightarrow> 's \<Rightarrow> 's result \<Rightarrow> 's result" where
  "guarded g s taken otherwise =
     (case g of
        Inl e \<Rightarrow> Inl (e, s)
      | Inr b \<Rightarrow> if b then Inr taken else otherwise)"

definition processMessage :: "jsstring \<Rightarrow> TrackAudioManager \<Rightarrow> TrackAudioManager result" where
  "processMessage message s0 =
     (let s = console_log (js ''received: '' @ message) s0 in
      case JSON_parse message of
        None \<Rightarrow> Inl (SyntaxError, s)
      | Some data \<Rightarrow>
          guarded (isFrequencyStateUpdate data) s (emit ''frequencyUpdate'' (Some data) s)
         (guarded (isRxBegin data) s (emit ''rxBegin'' (Some data) s)
         (guarded (isRxEnd data) s (emit ''rxEnd'' (Some data) s)
         (guarded (isTxBegin data) s (emit ''txBegin'' (Some data) s)
         (guarded (isTxEnd data) s (emit ''txEnd'' (Some data) s)
         (Inr s))))))"

subsection \<open>The listeners that \<open>connect\<close> registers, and the timer's callback\<close>

definition socket_on_open :: "TrackAudioManager \<Rightarrow> TrackAudioManager" where
  "socket_on_open s =
     emit ''connected'' None (console_log (js ''WebSocket connection established.'') s)"

definition socket_on_close :: "TrackAudioManager \<Rightarrow> TrackAudioManager" where
  "socket_on_close s =
     reconnect (emit ''disconnected'' None (console_log (js ''WebSocket connection closed'') s))"

definition socket_on_error :: "jsstring \<Rightarrow> jsstring \<Rightarrow> TrackAudioManager \<Rightarrow> TrackAudioManager" where
  "socket_on_error code message s =
     reconnect
       (if code = js ''ECONNREFUSED'' then
          console_error
            (js ''Unable to connect to TrackAudio, connection refused. TrackAudio probably isn't running.'') s
        else console_error (js ''WebSocket error: '' @ message) s)"

definition reconnect_callback ::
  "(jsstring \<Rightarrow> bool) \<Rightarrow> TrackAudioManager \<Rightarrow> TrackAudioManager result" where
  "reconnect_callback valid_url s =
     connect valid_url (console_log (js ''Attempting to reconnect...'') s)"

section \<open>Runs of the manager\<close>

text \<open>
  What happens to the manager: a call of one of its public methods by the plugin, an
  event of a socket (the library sets the state to OPEN before it emits \<open>open\<close> and to
  CLOSED before it emits \<open>close\<close>; any other change of a socket's state is an event of
  its own), or the expiry of a pending timer. An event of a socket runs the listener
  registered for it, if the socket exists and has one; a timer that is not pending does
  not expire. The first argument of \<open>step\<close> and \<open>run\<close> is the constructor's test of
  a url.
\<close>

datatype event =
    CallConnect
  | CallDisconnect
  | CallSetUrl jsstring
  | CallSend json
  | SocketState nat readyState
  | SocketOpen nat
  | SocketClose nat
  | SocketError nat jsstring jsstring
  | SocketMessage nat jsstring
  | TimerExpires nat

definition set_readyState :: "nat \<Rightarrow> readyState \<Rightarrow> TrackAudioManager \<Rightarrow> TrackAudioManager" where
  "set_readyState sid r s = map_socket sid (\<lambda>w. w\<lparr>readyState := r\<rparr>) s"

definition listens :: "nat \<Rightarrow> string \<Rightarrow> TrackAudioManager \<Rightarrow> bool" where
  "listens sid name s =
     (case socket_at sid s of
        None \<Rightarrow> False
      | Some w \<Rightarrow> name \<in> set (listeners w))"

fun step :: "(jsstring \<Rightarrow> bool) \<Rightarrow> event \<Rightarrow> TrackAudioManager \<Rightarrow> TrackAudioManager result" where
  "step valid_url CallConnect s = connect valid_url s"
| "step valid_url CallDisconnect s = Inr (disconnect s)"
| "step valid_url (CallSetUrl u) s = Inr (setUrl u s)"
| "step valid_url (CallSend data) s = Inr (send data s)"
| "step valid_url (SocketState sid r) s = Inr (set_readyState sid r s)"
| "step valid_url (SocketOpen sid) s =
     (if listens sid ''open'' s then Inr (socket_on_open (set_readyState sid OPEN s))
      else Inr (set_readyState sid OPEN s))"
| "step valid_url (SocketClose sid) s =
     (if listens sid ''close'' s then Inr (socket_on_close (set_readyState sid CLOSED s))
      else Inr (set_readyState sid CLOSED s))"
| "step valid_url (SocketError sid code message) s =
     (if listens sid ''error'' s then Inr (socket_on_error code message s) else Inr s)"
| "step valid_url (SocketMessage sid message) s =
     (if listens sid ''message'' s then processMessage message s else Inr s)"
| "step valid_url (TimerExpires t) s =
     (if pending t s then reconnect_callback valid_url (expire t s) else Inr s)"

text \<open>
  A run stops at the first exception that leaves a call or a listener: nothing in the
  manager catches it.
\<close>

fun run :: "(jsstring \<Rightarrow> bool) \<Rightarrow> event list \<Rightarrow> TrackAudioManager \<Rightarrow> TrackAudioManager result" where
  "run valid_url [] s = Inr s"
| "run valid_url (e # es) s =
     (case step valid_url e s of
        Inl x \<Rightarrow> Inl x
      | Inr s' \<Rightarrow> run valid_url es s')"

section \<open>AtisLetterController\<close>

text \<open>
  The private fields of the controller that its \<open>isUpdated\<close> and \<open>letter\<close> setters read
  and write; a field \<^verbatim>\<open>_name\<close> of the class is \<open>priv_name\<close> here. Of the settings only
  \<open>autoClear\<close> is read by them. \<open>refreshDisplay\<close> is debounced rendering: the model
  counts the requests.
\<close>

record AtisLetterSettings =
  autoClear :: "bool option"

record AtisLetterController = runtime +
  priv_autoClearTimeout :: "nat option"
  priv_isUnavailable :: bool
  priv_isUpdated :: bool
  priv_letter :: "jsstring option"
  priv_settings :: "AtisLetterSettings option"
  refreshDisplay_requests :: nat

definition refreshDisplay :: "AtisLetterController \<Rightarrow> AtisLetterController" where
  "refreshDisplay c = c\<lparr>refreshDisplay_requests := Suc (refreshDisplay_requests c)\<rparr>"

definition set_settings :: "AtisLetterSettings \<Rightarrow> AtisLetterController \<Rightarrow> AtisLetterController" where
  "set_settings newValue c = refreshDisplay (c\<lparr>priv_settings := Some newValue\<rparr>)"

definition new_AtisLetterController :: "AtisLetterSettings \<Rightarrow> AtisLetterController" where
  "new_AtisLetterController settings =
     set_settings settings
       \<lparr>timers = [], timer_seq = 0,
        priv_autoClearTimeout = None, priv_isUnavailable = False, priv_isUpdated = False,
        priv_letter = None, priv_settings = None, refreshDisplay_requests = 0\<rparr>"

definition reset :: "AtisLetterController \<Rightarrow> AtisLetterController" where
  "reset c = refreshDisplay (c\<lparr>priv_letter := None, priv_isUpdated := False, priv_isUnavailable := False\<rparr>)"

definition get_settings :: "AtisLetterController \<Rightarrow> error + AtisLetterSettings" where
  "get_settings c =
     (case priv_settings c of
        None \<Rightarrow> Inl (Error ''Settings not initialized. This should never happen.'')
      | Some st \<Rightarrow> Inr st)"

text \<open>\<^verbatim>\<open>this.settings.autoClear ?? true\<close>\<close>

definition get_autoClear :: "AtisLetterController \<Rightarrow> error + bool" where
  "get_autoClear c =
     (case get_settings c of
        Inl e \<Rightarrow> Inl e
      | Inr st \<Rightarrow> Inr (case autoClear st of None \<Rightarrow> True | Some b \<Rightarrow> b))"

definition get_isUpdated :: "AtisLetterController \<Rightarrow> bool" where
  "get_isUpdated c = priv_isUpdated c"

definition get_letter :: "AtisLetterController \<Rightarrow> jsstring option" where
  "get_letter c = priv_letter c"

definition set_isUpdated :: "bool \<Rightarrow> AtisLetterController \<Rightarrow> AtisLetterController result" where
  "set_isUpdated newValue c =
     (let c1 = (case priv_autoClearTimeout c of
                  None \<Rightarrow> c
                | Some t \<Rightarrow> (clearTimeout t c)\<lparr>priv_autoClearTimeout := None\<rparr>);
          c2 = c1\<lparr>priv_isUpdated := newValue\<rparr>
      in if get_isUpdated c2 then
           (case get_autoClear c2 of
              Inl e \<Rightarrow> Inl (e, c2)
            | Inr clears \<Rightarrow>
                if clears then
                  (let (t, c3) = setTimeout (1000 * 60 * 2) c2
                   in Inr (refreshDisplay (c3\<lparr>priv_autoClearTimeout := Some t\<rparr>)))
                else Inr (refreshDisplay c2))
         else Inr (refreshDisplay c2))"

text \<open>
  JavaScript's truthiness of a \<^verbatim>\<open>string | undefined\<close>: \<^verbatim>\<open>undefined\<close> and the empty
  string are falsy.
\<close>

definition truthy :: "jsstring option \<Rightarrow> bool" where
  "truthy l = (case l of None \<Rightarrow> False | Some cs \<Rightarrow> cs \<noteq> [])"

definition set_letter :: "jsstring option \<Rightarrow> AtisLetterController \<Rightarrow> AtisLetterController result" where
  "set_letter newLetter c =
     (case (if truthy (priv_letter c) \<and> truthy newLetter \<and> priv_letter c \<noteq> newLetter
            then set_isUpdated True c
            else set_isUpdated False c) of
        Inl x \<Rightarrow> Inl x
      | Inr c1 \<Rightarrow> Inr (refreshDisplay (c1\<lparr>priv_letter := newLetter\<rparr>)))"

text \<open>The callback of the auto-clear timer, run when it expires.\<close>

definition autoClear_callback :: "AtisLetterController \<Rightarrow> AtisLetterController result" where
  "autoClear_callback c = set_isUpdated False (c\<lparr>priv_autoClearTimeout := None\<rparr>)"

section \<open>Notions used in the statements and the proofs\<close>

text \<open>
  The type tags of the \<open>IncomingMessage\<close> union of the messages module: the message
  kinds.
\<close>

definition incoming_kinds :: "string list" where
  "incoming_kinds =
     [''kFrequencyStateUpdate'', ''kStationStates'', ''kStationStateUpdate'',
      ''kRxBegin'', ''kRxEnd'', ''kTxBegin'', ''kTxEnd'']"

text \<open>
  A value that a type tag can be read from (any value but \<^verbatim>\<open>null\<close>; the tag read is
  \<^verbatim>\<open>undefined\<close> when the value has no member \<open>type\<close>), the tag being none of the
  given kinds.
\<close>

definition tag_not_among :: "json \<Rightarrow> string list \<Rightarrow> bool" where
  "tag_not_among data kinds =
     (case get_property data (js ''type'') of
        Inl e \<Rightarrow> False
      | Inr None \<Rightarrow> True
      | Inr (Some t) \<Rightarrow> t \<notin> set (map (\<lambda>k. JString (js k)) kinds))"

text \<open>
  A constructor that accepts every url, for the runs evaluated below; the urls in them
  are well formed.
\<close>

definition accepts_all :: "jsstring \<Rightarrow> bool" where
  "accepts_all u = True"

text \<open>
  The invariant of the reconnect timer: the interval is the initial one, and the pending
  timers are none, or the one held in \<open>reconnectTimer\<close>, set with that interval.
\<close>

definition timer_inv :: "TrackAudioManager \<Rightarrow> bool" where
  "timer_inv s =
     (reconnectInterval s = 5000 \<and>
      (case reconnectTimer s of
         None \<Rightarrow> timers s = []
       | Some t \<Rightarrow> timers s = [] \<or> timers s = [(t, 5000)]))"

text \<open>A state, and the outcome of a call, with the console left out.\<close>

definition quiet :: "TrackAudioManager \<Rightarrow> TrackAudioManager" where
  "quiet s = s\<lparr>console := []\<rparr>"

definition quiet_result :: "TrackAudioManager result \<Rightarrow> TrackAudioManager result" where
  "quiet_result r = (case r of Inl (e, s) \<Rightarrow> Inl (e, quiet s) | Inr s \<Rightarrow> Inr (quiet s))"

section \<open>Evaluation\<close>

lemma final_simps [simp]: "final (Inr s) = s" "final (Inl (e, s)) = s"
  by (simp_all add: final_def)

lemma returns_simps [simp]: "returns (Inr s)" "\<not> returns (Inl x)"
  by (simp_all add: returns_def)

lemma js_eq [simp]: "(js a = js b) = (a = b)"
  by (simp add: js_def cu_def inj_map_eq_map inj_on_def)

lemma js_Nil [simp]: "(js a = []) = (a = [])"
  by (simp add: js_def)

lemmas manager_defs =
  new_TrackAudioManager_def connect_def socket_in_use_def socket_is_open_def socket_at_def
  new_WebSocket_def on_def map_socket_def console_warn_def console_log_def console_error_def
  emit_def clearTimeout_def setTimeout_def expire_def pending_def reconnect_def disconnect_def
  ws_close_def ws_send_def send_def set_readyState_def listens_def socket_on_open_def
  socket_on_close_def socket_on_error_def reconnect_callback_def setUrl_def accepts_all_def
  Let_def

section \<open>The letter of the ATIS controller\<close>

lemma set_isUpdated_final:
  "priv_isUpdated (final (set_isUpdated b c)) = b"
  by (simp add: set_isUpdated_def get_isUpdated_def get_autoClear_def
      get_settings_def refreshDisplay_def setTimeout_def clearTimeout_def Let_def
      split: option.splits sum.splits prod.splits)

lemma set_isUpdated_returns:
  "priv_settings c = Some st \<Longrightarrow> \<exists>c'. set_isUpdated b c = Inr c'"
  by (simp add: set_isUpdated_def get_isUpdated_def get_autoClear_def
      get_settings_def refreshDisplay_def setTimeout_def clearTimeout_def Let_def
      split: option.splits sum.splits prod.splits)

text \<open>
  C10. After an assignment to \<open>letter\<close>, the getter \<open>isUpdated\<close> gives true exactly when
  the letter stored before (what the getter \<open>letter\<close> gave) was defined and not empty,
  the new letter is defined and not empty, and the two differ. So the first assignment
  (nothing stored yet) and every assignment of \<^verbatim>\<open>undefined\<close> leave it false. The
  state after the assignment is the state at the return, or, on a controller without
  settings (which the constructor excludes), at the throw of the \<open>settings\<close> getter; with
  settings the setter returns and the getter \<open>letter\<close> gives the new letter.
\<close>

theorem letter_setter_isUpdated:
  "get_isUpdated (final (set_letter newLetter c)) =
     (\<exists>old new. get_letter c = Some old \<and> old \<noteq> [] \<and> newLetter = Some new \<and> new \<noteq> []
        \<and> old \<noteq> new)
   \<and> (get_letter c = None \<longrightarrow> \<not> get_isUpdated (final (set_letter newLetter c)))
   \<and> \<not> get_isUpdated (final (set_letter None c))
   \<and> (priv_settings c \<noteq> None \<longrightarrow>
        returns (set_letter newLetter c) \<and> get_letter (final (set_letter newLetter c)) = newLetter)"
proof -
  have upd: "get_isUpdated (final (set_letter l c)) =
      (truthy (get_letter c) \<and> truthy l \<and> get_letter c \<noteq> l)" for l
  proof (cases "truthy (priv_letter c) \<and> truthy l \<and> priv_letter c \<noteq> l")
    case True
    then show ?thesis
      using set_isUpdated_final [of True c]
      by (auto simp add: set_letter_def get_isUpdated_def get_letter_def refreshDisplay_def
          split: sum.splits)
  next
    case False
    then show ?thesis
      using set_isUpdated_final [of False c]
      by (auto simp add: set_letter_def get_isUpdated_def get_letter_def refreshDisplay_def
          split: sum.splits)
  qed
  have ret: "returns (set_letter newLetter c) \<and> get_letter (final (set_letter newLetter c)) = newLetter"
    if "priv_settings c \<noteq> None"
  proof -
    from that obtain st where "priv_settings c = Some st" by auto
    then obtain c1 c2 where "set_isUpdated True c = Inr c1" "set_isUpdated False c = Inr c2"
      using set_isUpdated_returns by blast
    then show ?thesis
      by (simp add: set_letter_def get_letter_def refreshDisplay_def)
  qed
  show ?thesis using upd [of newLetter] upd [of None] ret
    by (auto simp add: truthy_def split: option.splits)
qed

text \<open>
  A controller as constructed: the first letter \<open>A\<close> leaves \<open>isUpdated\<close> false, the next
  letter \<open>B\<close> sets it, the same letter \<open>B\<close> again clears it.
\<close>

theorem letter_setter_isUpdated_witness:
  "priv_settings (new_AtisLetterController \<lparr>autoClear = None\<rparr>) \<noteq> None
   \<and> get_letter (new_AtisLetterController \<lparr>autoClear = None\<rparr>) = None
   \<and> \<not> get_isUpdated (final (set_letter (Some (js ''A'')) (new_AtisLetterController \<lparr>autoClear = None\<rparr>)))
   \<and> get_isUpdated (final (set_letter (Some (js ''B''))
        (final (set_letter (Some (js ''A'')) (new_AtisLetterController \<lparr>autoClear = None\<rparr>)))))
   \<and> \<not> get_isUpdated (final (set_letter (Some (js ''B'')) (final (set_letter (Some (js ''B''))
        (final (set_letter (Some (js ''A'')) (new_AtisLetterController \<lparr>autoClear = None\<rparr>)))))))
   \<and> returns (set_letter (Some (js ''A'')) (new_AtisLetterController \<lparr>autoClear = None\<rparr>))
   \<and> get_letter (final (set_letter (Some (js ''A'')) (new_AtisLetterController \<lparr>autoClear = None\<rparr>)))
       = Some (js ''A'')"
  using letter_setter_isUpdated [of "Some (js ''A'')" "new_AtisLetterController \<lparr>autoClear = None\<rparr>"]
    letter_setter_isUpdated [of "Some (js ''B'')"
       "final (set_letter (Some (js ''A'')) (new_AtisLetterController \<lparr>autoClear = None\<rparr>))"]
  by (simp add: new_AtisLetterController_def set_settings_def refreshDisplay_def truthy_def
      get_letter_def get_isUpdated_def set_letter_def set_isUpdated_def get_autoClear_def
      get_settings_def setTimeout_def clearTimeout_def Let_def)

section \<open>A connect while the socket is in use\<close>

text \<open>
  C5. \<open>connect\<close> on a manager whose socket exists and is not CLOSED returns after it
  has written a warning to the console, and does nothing else: no socket is constructed,
  the manager's socket is the same one, every socket (its state, its listeners) is as
  before, and so are the timers.
\<close>

theorem connect_in_use_is_noop:
  "socket_in_use s \<Longrightarrow>
     connect valid_url s =
       Inr (s\<lparr>console := console s @
              [ConsoleWarn (js ''WebSocket is already connected or connecting.'')]\<rparr>)
     \<and> socket (final (connect valid_url s)) = socket s
     \<and> sockets (final (connect valid_url s)) = sockets s
     \<and> timers (final (connect valid_url s)) = timers s
     \<and> reconnectTimer (final (connect valid_url s)) = reconnectTimer s"
  by (simp add: connect_def console_warn_def)

text \<open>A second \<open>connect\<close> right after the first: the socket is CONNECTING, and stays the only one.\<close>

theorem connect_in_use_is_noop_witness:
  "socket_in_use (final (connect accepts_all new_TrackAudioManager))
   \<and> sockets (final (connect accepts_all (final (connect accepts_all new_TrackAudioManager))))
       = sockets (final (connect accepts_all new_TrackAudioManager))
   \<and> length (sockets (final (connect accepts_all new_TrackAudioManager))) = 1"
  using connect_in_use_is_noop [of "final (connect accepts_all new_TrackAudioManager)" accepts_all]
  by (simp add: manager_defs)

section \<open>What \<open>processMessage\<close> does, by the decoded frame\<close>

lemma processMessage_cases:
  "processMessage message s =
     (case JSON_parse message of
        None \<Rightarrow> Inl (SyntaxError, console_log (js ''received: '' @ message) s)
      | Some data \<Rightarrow>
          (case get_property data (js ''type'') of
             Inl e \<Rightarrow> Inl (e, console_log (js ''received: '' @ message) s)
           | Inr t \<Rightarrow>
               if t = Some (JString (js ''kFrequencyStateUpdate'')) then
                 Inr (emit ''frequencyUpdate'' (Some data) (console_log (js ''received: '' @ message) s))
               else if t = Some (JString (js ''kRxBegin'')) then
                 Inr (emit ''rxBegin'' (Some data) (console_log (js ''received: '' @ message) s))
               else if t = Some (JString (js ''kRxEnd'')) then
                 Inr (emit ''rxEnd'' (Some data) (console_log (js ''received: '' @ message) s))
               else if t = Some (JString (js ''kTxBegin'')) then
                 Inr (emit ''txBegin'' (Some data) (console_log (js ''received: '' @ message) s))
               else if t = Some (JString (js ''kTxEnd'')) then
                 Inr (emit ''txEnd'' (Some data) (console_log (js ''received: '' @ message) s))
               else Inr (console_log (js ''received: '' @ message) s)))"
  by (simp add: processMessage_def guarded_def type_is_def isFrequencyStateUpdate_def
      isRxBegin_def isRxEnd_def isTxBegin_def isTxEnd_def Let_def
      split: option.splits sum.splits)

section \<open>The reconnect timer\<close>

subsection \<open>The invariant holds along every run\<close>

lemma timer_inv_new: "timer_inv new_TrackAudioManager"
  by (simp add: timer_inv_def new_TrackAudioManager_def)

lemma timer_inv_console [simp]:
  "timer_inv (console_log l s) = timer_inv s"
  "timer_inv (console_warn l s) = timer_inv s"
  "timer_inv (console_error l s) = timer_inv s"
  "timer_inv (emit n p s) = timer_inv s"
  by (simp_all add: timer_inv_def console_log_def console_warn_def console_error_def emit_def
      split: option.splits)

lemma timer_inv_map_socket [simp]: "timer_inv (map_socket sid f s) = timer_inv s"
  by (simp add: timer_inv_def map_socket_def split: option.splits)

lemma timer_inv_setUrl: "timer_inv s \<Longrightarrow> timer_inv (setUrl u s)"
  by (simp add: timer_inv_def setUrl_def split: option.splits)

lemma timer_inv_connect: "timer_inv s \<Longrightarrow> timer_inv (final (connect valid_url s))"
  by (auto simp add: timer_inv_def connect_def new_WebSocket_def on_def map_socket_def
      clearTimeout_def console_warn_def Let_def split: option.splits)

lemma timer_inv_reconnect: "timer_inv s \<Longrightarrow> timer_inv (reconnect s)"
  by (auto simp add: timer_inv_def reconnect_def setTimeout_def split: option.splits)

lemma timer_inv_disconnect: "timer_inv s \<Longrightarrow> timer_inv (disconnect s)"
  by (auto simp add: timer_inv_def disconnect_def ws_close_def map_socket_def clearTimeout_def
      Let_def split: option.splits)

lemma timer_inv_send: "timer_inv s \<Longrightarrow> timer_inv (send d s)"
  by (auto simp add: send_def ws_send_def split: option.splits)

lemma timer_inv_expire: "timer_inv s \<Longrightarrow> timer_inv (expire t s)"
  by (auto simp add: timer_inv_def expire_def split: option.splits if_splits)

lemma timer_inv_processMessage: "timer_inv s \<Longrightarrow> timer_inv (final (processMessage m s))"
  by (simp add: processMessage_cases split: option.splits sum.splits)

lemma timer_inv_step: "timer_inv s \<Longrightarrow> timer_inv (final (step valid_url e s))"
proof (cases e)
  case (SocketMessage sid m)
  then show "timer_inv s \<Longrightarrow> ?thesis"
    using timer_inv_processMessage [of s m] by simp
next
  case (TimerExpires t)
  then show "timer_inv s \<Longrightarrow> ?thesis"
    using timer_inv_connect [of "console_log (js ''Attempting to reconnect...'') (expire t s)" valid_url]
    by (simp add: reconnect_callback_def timer_inv_expire)
qed (simp_all add: timer_inv_connect timer_inv_disconnect timer_inv_send
        timer_inv_reconnect set_readyState_def socket_on_open_def
        socket_on_close_def socket_on_error_def timer_inv_setUrl)

lemma timer_inv_run: "timer_inv s \<Longrightarrow> timer_inv (final (run valid_url evs s))"
proof (induction evs arbitrary: s)
  case Nil
  then show ?case by simp
next
  case (Cons e es)
  show ?case
  proof (cases "step valid_url e s")
    case (Inl x)
    with timer_inv_step [OF Cons.prems, of valid_url e] show ?thesis by simp
  next
    case (Inr s')
    with timer_inv_step [OF Cons.prems, of valid_url e] have "timer_inv s'" by simp
    with Cons.IH Inr show ?thesis by simp
  qed
qed

lemma timer_inv_reachable: "timer_inv (final (run valid_url evs new_TrackAudioManager))"
  by (rule timer_inv_run [OF timer_inv_new])

lemma timer_inv_length: "timer_inv s \<Longrightarrow> length (timers s) \<le> 1"
  by (auto simp add: timer_inv_def split: option.splits)

lemma timer_inv_pending_dropped: "timer_inv s \<Longrightarrow> timers s \<noteq> [] \<Longrightarrow> reconnect s = s"
  by (auto simp add: timer_inv_def reconnect_def split: option.splits)

text \<open>
  C1. Whatever the calls, socket events and timer expiries, in whatever order, and
  whatever urls the socket constructor accepts, the state they lead to (the state at the
  throw, if a call or a listener threw) has at most one pending timer; and when it has
  one, a \<open>reconnect\<close> request leaves the state as it is: the request is dropped, the
  pending timer is neither replaced nor joined by another.
\<close>

theorem at_most_one_reconnect_timer:
  "length (timers (final (run valid_url evs new_TrackAudioManager))) \<le> 1
   \<and> (timers (final (run valid_url evs new_TrackAudioManager)) \<noteq> [] \<longrightarrow>
        reconnect (final (run valid_url evs new_TrackAudioManager))
          = final (run valid_url evs new_TrackAudioManager))"
  using timer_inv_reachable [of valid_url evs] timer_inv_length timer_inv_pending_dropped by blast

text \<open>
  A refused connection: the socket's error event schedules the timer, and the close event
  that follows finds it pending.
\<close>

theorem at_most_one_reconnect_timer_witness:
  "timers (final (run accepts_all
      [CallConnect, SocketError 0 (js ''ECONNREFUSED'') (js ''connect ECONNREFUSED'')]
      new_TrackAudioManager)) = [(0, 5000)]
   \<and> timers (final (run accepts_all
      [CallConnect, SocketError 0 (js ''ECONNREFUSED'') (js ''connect ECONNREFUSED''), SocketClose 0]
      new_TrackAudioManager)) = [(0, 5000)]
   \<and> reconnect (final (run accepts_all
      [CallConnect, SocketError 0 (js ''ECONNREFUSED'') (js ''connect ECONNREFUSED'')]
      new_TrackAudioManager))
     = final (run accepts_all
      [CallConnect, SocketError 0 (js ''ECONNREFUSED'') (js ''connect ECONNREFUSED'')]
      new_TrackAudioManager)"
  using at_most_one_reconnect_timer [of accepts_all
      "[CallConnect, SocketError 0 (js ''ECONNREFUSED'') (js ''connect ECONNREFUSED'')]"]
  by (simp add: manager_defs)

lemma timer_inv_delays:
  "timer_inv s \<Longrightarrow> reconnectInterval s = 5000 \<and> (\<forall>p \<in> set (timers s). snd p = 5000)"
  by (auto simp add: timer_inv_def split: option.splits)

text \<open>
  C8, as stated: the interval is configurable by the hosting process. It is not: the
  field is private, no method assigns it, and no run of calls and events leads to a
  manager whose interval differs from the initial \<open>1000 * 5\<close>.
\<close>

theorem reconnect_interval_not_configurable:
  "\<not> (\<exists>valid_url evs.
        reconnectInterval (final (run valid_url evs new_TrackAudioManager)) \<noteq> 1000 * 5)"
  using timer_inv_reachable timer_inv_delays by auto

text \<open>
  C8, amended. The reconnect delay is a fixed interval of 5000 ms, the same for every
  attempt: in every state a run leads to, the interval is 5000, every pending timer was
  set with a delay of 5000, and a \<open>reconnect\<close> with no timer held sets one with a delay
  of 5000.
\<close>

theorem reconnect_interval_fixed:
  "reconnectInterval (final (run valid_url evs new_TrackAudioManager)) = 5000
   \<and> (\<forall>p \<in> set (timers (final (run valid_url evs new_TrackAudioManager))). snd p = 5000)
   \<and> (reconnectTimer (final (run valid_url evs new_TrackAudioManager)) = None \<longrightarrow>
        timers (reconnect (final (run valid_url evs new_TrackAudioManager)))
          = [(timer_seq (final (run valid_url evs new_TrackAudioManager)), 5000)])"
proof -
  let ?s = "final (run valid_url evs new_TrackAudioManager)"
  have inv: "timer_inv ?s" by (rule timer_inv_reachable)
  then have "reconnectTimer ?s = None \<longrightarrow> timers (reconnect ?s) = [(timer_seq ?s, 5000)]"
    by (auto simp add: timer_inv_def reconnect_def setTimeout_def split: option.splits)
  with timer_inv_delays [OF inv] show ?thesis by simp
qed

text \<open>
  After \<open>setUrl\<close>, the only setter of the manager, a closed socket schedules the
  reconnect at 5000 ms; so does a \<open>reconnect\<close> on a manager that holds no timer.
\<close>

theorem reconnect_interval_fixed_witness:
  "reconnectInterval (final (run accepts_all
      [CallSetUrl (js ''ws://127.0.0.1:49080/ws''), CallConnect, SocketClose 0]
      new_TrackAudioManager)) = 5000
   \<and> timers (final (run accepts_all
      [CallSetUrl (js ''ws://127.0.0.1:49080/ws''), CallConnect, SocketClose 0]
      new_TrackAudioManager)) = [(0, 5000)]
   \<and> reconnectTimer (final (run accepts_all [CallConnect] new_TrackAudioManager)) = None
   \<and> timers (reconnect (final (run accepts_all [CallConnect] new_TrackAudioManager))) = [(0, 5000)]"
  using reconnect_interval_fixed [of accepts_all
      "[CallSetUrl (js ''ws://127.0.0.1:49080/ws''), CallConnect, SocketClose 0]"]
    reconnect_interval_fixed [of accepts_all "[CallConnect]"]
  by (simp add: manager_defs)

text \<open>
  C9. When \<open>connect\<close> goes on to open a transport (the socket is absent or CLOSED), the
  timer slot is empty afterwards and the timer it held is no longer pending; in a state
  that a run leads to, no timer at all is pending after the call, so such a \<open>connect\<close>
  never leaves both a connection attempt and a pending timer. The timer is cancelled
  first: this holds at the return and, where the constructor refuses the url, at its
  throw. Where the constructor accepts the url, \<open>connect\<close> returns and the manager's
  socket is the new one, CONNECTING, with the four listeners; where it refuses, the
  manager's socket and the sockets are as before.
\<close>

theorem connect_cancels_pending_timer:
  "\<not> socket_in_use s \<Longrightarrow>
     reconnectTimer (final (connect valid_url s)) = None
     \<and> (\<forall>t. reconnectTimer s = Some t \<longrightarrow> \<not> pending t (final (connect valid_url s)))
     \<and> (run valid_url evs new_TrackAudioManager = Inr s \<longrightarrow>
          timers (final (connect valid_url s)) = [])
     \<and> (valid_url (url s) \<longrightarrow>
          returns (connect valid_url s)
          \<and> socket (final (connect valid_url s)) = Some (length (sockets s))
          \<and> sockets (final (connect valid_url s)) = sockets s @
               [\<lparr>ws_url = url s, readyState = CONNECTING,
                 listeners = [''open'', ''close'', ''error'', ''message''], sent = []\<rparr>])
     \<and> (\<not> valid_url (url s) \<longrightarrow>
          \<not> returns (connect valid_url s)
          \<and> socket (final (connect valid_url s)) = socket s
          \<and> sockets (final (connect valid_url s)) = sockets s)"
proof -
  assume free: "\<not> socket_in_use s"
  have a: "reconnectTimer (final (connect valid_url s)) = None"
    using free by (simp add: connect_def new_WebSocket_def on_def map_socket_def clearTimeout_def
        Let_def split: option.splits)
  have b: "\<forall>t. reconnectTimer s = Some t \<longrightarrow> \<not> pending t (final (connect valid_url s))"
    using free by (auto simp add: connect_def new_WebSocket_def on_def map_socket_def
        clearTimeout_def pending_def Let_def split: option.splits)
  have c: "timers (final (connect valid_url s)) = []"
    if "run valid_url evs new_TrackAudioManager = Inr s"
  proof -
    from that timer_inv_reachable [of valid_url evs] have "timer_inv s" by simp
    from timer_inv_connect [OF this, of valid_url] a show ?thesis by (simp add: timer_inv_def)
  qed
  have d: "returns (connect valid_url s)
      \<and> socket (final (connect valid_url s)) = Some (length (sockets s))
      \<and> sockets (final (connect valid_url s)) = sockets s @
          [\<lparr>ws_url = url s, readyState = CONNECTING,
            listeners = [''open'', ''close'', ''error'', ''message''], sent = []\<rparr>]"
    if "valid_url (url s)"
    using free that by (simp add: connect_def new_WebSocket_def on_def map_socket_def
        clearTimeout_def Let_def split: option.splits)
  have e: "\<not> returns (connect valid_url s)
      \<and> socket (final (connect valid_url s)) = socket s
      \<and> sockets (final (connect valid_url s)) = sockets s"
    if "\<not> valid_url (url s)"
    using free that by (simp add: connect_def new_WebSocket_def clearTimeout_def
        Let_def split: option.splits)
  from a b c d e show ?thesis by blast
qed

text \<open>
  The socket closed and the reconnect is pending; a \<open>connect\<close> by the plugin cancels it
  and opens the second socket. With a constructor that refuses the url set meanwhile, the
  \<open>connect\<close> throws, the timer cancelled all the same.
\<close>

theorem connect_cancels_pending_timer_witness:
  "run accepts_all [CallConnect, SocketClose 0] new_TrackAudioManager
     = Inr (final (run accepts_all [CallConnect, SocketClose 0] new_TrackAudioManager))
   \<and> \<not> socket_in_use (final (run accepts_all [CallConnect, SocketClose 0] new_TrackAudioManager))
   \<and> reconnectTimer (final (run accepts_all [CallConnect, SocketClose 0] new_TrackAudioManager)) = Some 0
   \<and> timers (final (run accepts_all [CallConnect, SocketClose 0] new_TrackAudioManager)) = [(0, 5000)]
   \<and> accepts_all (url (final (run accepts_all [CallConnect, SocketClose 0] new_TrackAudioManager)))
   \<and> reconnectTimer (final (connect accepts_all
        (final (run accepts_all [CallConnect, SocketClose 0] new_TrackAudioManager)))) = None
   \<and> timers (final (connect accepts_all
        (final (run accepts_all [CallConnect, SocketClose 0] new_TrackAudioManager)))) = []
   \<and> socket (final (connect accepts_all
        (final (run accepts_all [CallConnect, SocketClose 0] new_TrackAudioManager)))) = Some 1
   \<and> run (\<lambda>u. u = js ''ws://localhost:49080/ws'') [CallConnect, SocketClose 0, CallSetUrl (js ''not a url'')]
        new_TrackAudioManager
     = Inr (final (run (\<lambda>u. u = js ''ws://localhost:49080/ws'')
          [CallConnect, SocketClose 0, CallSetUrl (js ''not a url'')] new_TrackAudioManager))
   \<and> \<not> returns (connect (\<lambda>u. u = js ''ws://localhost:49080/ws'')
        (final (run (\<lambda>u. u = js ''ws://localhost:49080/ws'')
          [CallConnect, SocketClose 0, CallSetUrl (js ''not a url'')] new_TrackAudioManager)))
   \<and> timers (final (connect (\<lambda>u. u = js ''ws://localhost:49080/ws'')
        (final (run (\<lambda>u. u = js ''ws://localhost:49080/ws'')
          [CallConnect, SocketClose 0, CallSetUrl (js ''not a url'')] new_TrackAudioManager)))) = []
   \<and> socket (final (connect (\<lambda>u. u = js ''ws://localhost:49080/ws'')
        (final (run (\<lambda>u. u = js ''ws://localhost:49080/ws'')
          [CallConnect, SocketClose 0, CallSetUrl (js ''not a url'')] new_TrackAudioManager)))) = Some 0"
  using connect_cancels_pending_timer
      [of "final (run accepts_all [CallConnect, SocketClose 0] new_TrackAudioManager)"
        accepts_all "[CallConnect, SocketClose 0]"]
    connect_cancels_pending_timer
      [of "final (run (\<lambda>u. u = js ''ws://localhost:49080/ws'')
          [CallConnect, SocketClose 0, CallSetUrl (js ''not a url'')] new_TrackAudioManager)"
        "\<lambda>u. u = js ''ws://localhost:49080/ws''"
        "[CallConnect, SocketClose 0, CallSetUrl (js ''not a url'')]"]
  by (simp add: manager_defs)

text \<open>
  C2. The claim: after \<open>disconnect\<close>, and until the next \<open>connect\<close>, no timer is
  scheduled and the manager stays disconnected. The code: \<open>disconnect\<close> closes the
  socket and clears the timer, but the listener of the socket's close event is still
  registered and calls \<open>reconnect\<close> unconditionally. On the run connect, open,
  disconnect, close (the close event of the socket that \<open>disconnect\<close> closed), with a
  constructor that accepts the default url, the timer is pending again, and when it
  expires the manager connects a second socket.
\<close>

theorem disconnect_then_close_schedules_reconnect:
  "valid_url (js ''ws://localhost:49080/ws'') \<Longrightarrow>
   run valid_url [CallConnect, SocketOpen 0, CallDisconnect, SocketClose 0] new_TrackAudioManager =
     Inr \<lparr>timers = [(0, 5000)], timer_seq = 1,
          socket = None, reconnectInterval = 5000, url = js ''ws://localhost:49080/ws'',
          reconnectTimer = Some 0,
          sockets = [\<lparr>ws_url = js ''ws://localhost:49080/ws'', readyState = CLOSED,
                      listeners = [''open'', ''close'', ''error'', ''message''], sent = []\<rparr>],
          emitted = [(''connected'', None), (''disconnected'', None)],
          console = [ConsoleLog (js ''WebSocket connection established.''),
                     ConsoleLog (js ''WebSocket connection closed'')]\<rparr>
   \<and> socket (final (run valid_url [CallConnect, SocketOpen 0, CallDisconnect, SocketClose 0,
         TimerExpires 0] new_TrackAudioManager)) = Some 1
   \<and> map readyState (sockets (final (run valid_url [CallConnect, SocketOpen 0, CallDisconnect,
         SocketClose 0, TimerExpires 0] new_TrackAudioManager))) = [CLOSED, CONNECTING]"
  by (simp add: manager_defs)

text \<open>The run with a constructor that accepts every url.\<close>

theorem disconnect_then_close_schedules_reconnect_witness:
  "accepts_all (js ''ws://localhost:49080/ws'')
   \<and> timers (final (run accepts_all [CallConnect, SocketOpen 0, CallDisconnect, SocketClose 0]
        new_TrackAudioManager)) = [(0, 5000)]
   \<and> reconnectTimer (final (run accepts_all [CallConnect, SocketOpen 0, CallDisconnect, SocketClose 0]
        new_TrackAudioManager)) = Some 0
   \<and> socket (final (run accepts_all [CallConnect, SocketOpen 0, CallDisconnect, SocketClose 0,
        TimerExpires 0] new_TrackAudioManager)) = Some 1"
  using disconnect_then_close_schedules_reconnect [of accepts_all]
  by (simp add: accepts_all_def)

section \<open>Inbound frames\<close>

subsection \<open>Frames decoded\<close>

lemma parse_not_json: "JSON_parse (js ''not json'') = None"
  by code_simp

lemma parse_null: "JSON_parse (js ''null'') = Some JNull"
  by code_simp

text \<open>A frame whose callsign is written with a \<open>\u\<close> escape (\<open>0x5C\<close> is the backslash).\<close>

lemma parse_rx_begin:
  \<open>JSON_parse (js ''{"type":"kRxBegin","value":{"callsign":"'' @ 0x5C # js ''u0141OT123","pFrequencyHz":121500000}}'') =
     Some (JObject [(js ''type'', JString (js ''kRxBegin'')),
       (js ''value'', JObject [(js ''callsign'', JString (0x141 # js ''OT123'')),
          (js ''pFrequencyHz'', JNumber (js ''121500000''))])])\<close>
  by code_simp

lemma parse_station_state_update:
  \<open>JSON_parse (js ''{"type":"kStationStateUpdate","value":{"callsign":"DAL123","frequency":121500000,"tx":false,"rx":true,"xc":false,"headset":true}}'') =
     Some (JObject [(js ''type'', JString (js ''kStationStateUpdate'')),
       (js ''value'', JObject [(js ''callsign'', JString (js ''DAL123'')),
          (js ''frequency'', JNumber (js ''121500000'')),
          (js ''tx'', JBool False), (js ''rx'', JBool True), (js ''xc'', JBool False),
          (js ''headset'', JBool True)])])\<close>
  by code_simp

lemma parse_station_states:
  \<open>JSON_parse (js ''{"type":"kStationStates","value":{"stations":[{"type":"kStationStateUpdate","value":{"callsign":"DAL123","frequency":121500000,"tx":false,"rx":true,"xc":false,"headset":true}}]}}'') =
     Some (JObject [(js ''type'', JString (js ''kStationStates'')),
       (js ''value'', JObject [(js ''stations'', JArray [
          JObject [(js ''type'', JString (js ''kStationStateUpdate'')),
            (js ''value'', JObject [(js ''callsign'', JString (js ''DAL123'')),
               (js ''frequency'', JNumber (js ''121500000'')),
               (js ''tx'', JBool False), (js ''rx'', JBool True), (js ''xc'', JBool False),
               (js ''headset'', JBool True)])]])])])\<close>
  by code_simp

lemma parse_unknown:
  \<open>JSON_parse (js ''{"type":"kVoiceConnectedState","value":{"connected":true}}'') =
     Some (JObject [(js ''type'', JString (js ''kVoiceConnectedState'')),
       (js ''value'', JObject [(js ''connected'', JBool True)])])\<close>
  by code_simp

lemma parse_untagged: \<open>JSON_parse (js ''[1, {"a": "b"}]'') =
    Some (JArray [JNumber (js ''1''), JObject [(js ''a'', JString (js ''b''))]])\<close>
  by code_simp

subsection \<open>Frames that do not decode\<close>

text \<open>
  C3, as stated: \<open>processMessage\<close> never raises, whatever the string. It does: the call of
  \<^verbatim>\<open>JSON.parse\<close> is not inside a \<^verbatim>\<open>try\<close>, so the frame \<^verbatim>\<open>not json\<close> leaves
  \<open>processMessage\<close> with a SyntaxError, and the frame \<^verbatim>\<open>null\<close> with the TypeError of
  reading \<^verbatim>\<open>null.type\<close>. On an open socket the exception leaves the message listener:
  the run with the frame does not return, the run up to it does.
\<close>

theorem malformed_frame_throws:
  "processMessage (js ''not json'') new_TrackAudioManager
     = Inl (SyntaxError, console_log (js ''received: '' @ js ''not json'') new_TrackAudioManager)
   \<and> processMessage (js ''null'') new_TrackAudioManager
     = Inl (TypeError, console_log (js ''received: '' @ js ''null'') new_TrackAudioManager)
   \<and> returns (run accepts_all [CallConnect, SocketOpen 0] new_TrackAudioManager)
   \<and> \<not> returns (run accepts_all [CallConnect, SocketOpen 0, SocketMessage 0 (js ''not json'')]
        new_TrackAudioManager)"
  by (simp add: processMessage_cases parse_not_json parse_null manager_defs)

text \<open>
  C3, amended. \<open>processMessage\<close> logs the frame and then: throws a SyntaxError when the
  frame is not JSON; throws a TypeError when the frame is the JSON \<^verbatim>\<open>null\<close>; returns
  normally on every frame that decodes to any other value.
\<close>

theorem processMessage_throws_or_returns:
  "(JSON_parse message = None \<longrightarrow>
      processMessage message s = Inl (SyntaxError, console_log (js ''received: '' @ message) s))
   \<and> (JSON_parse message = Some JNull \<longrightarrow>
      processMessage message s = Inl (TypeError, console_log (js ''received: '' @ message) s))
   \<and> (\<forall>data. JSON_parse message = Some data \<and> data \<noteq> JNull \<longrightarrow>
      returns (processMessage message s))"
proof -
  have "returns (processMessage message s)" if "JSON_parse message = Some data" "data \<noteq> JNull" for data
    using that by (cases data) (simp_all add: processMessage_cases)
  then show ?thesis by (simp add: processMessage_cases)
qed

text \<open>
  One frame of each of the three sorts; the third has a \<open>\u\<close> escape in its callsign.
\<close>

theorem processMessage_throws_or_returns_witness:
  \<open>JSON_parse (js ''not json'') = None
   \<and> processMessage (js ''not json'') new_TrackAudioManager
       = Inl (SyntaxError, console_log (js ''received: '' @ js ''not json'') new_TrackAudioManager)
   \<and> JSON_parse (js ''null'') = Some JNull
   \<and> processMessage (js ''null'') new_TrackAudioManager
       = Inl (TypeError, console_log (js ''received: '' @ js ''null'') new_TrackAudioManager)
   \<and> JSON_parse (js ''{"type":"kRxBegin","value":{"callsign":"'' @ 0x5C # js ''u0141OT123","pFrequencyHz":121500000}}'') \<noteq> None
   \<and> JSON_parse (js ''{"type":"kRxBegin","value":{"callsign":"'' @ 0x5C # js ''u0141OT123","pFrequencyHz":121500000}}'') \<noteq> Some JNull
   \<and> returns (processMessage (js ''{"type":"kRxBegin","value":{"callsign":"'' @ 0x5C # js ''u0141OT123","pFrequencyHz":121500000}}'') new_TrackAudioManager)\<close>
  using processMessage_throws_or_returns [of "js ''not json''" new_TrackAudioManager]
    processMessage_throws_or_returns [of "js ''null''" new_TrackAudioManager]
    processMessage_throws_or_returns
      [of \<open>js ''{"type":"kRxBegin","value":{"callsign":"'' @ 0x5C # js ''u0141OT123","pFrequencyHz":121500000}}''\<close>
        new_TrackAudioManager]
  by (simp add: parse_not_json parse_null parse_rx_begin)

subsection \<open>Frames of an unrecognized kind\<close>

lemma tag_not_among_incoming:
  "tag_not_among data incoming_kinds \<Longrightarrow>
     \<exists>t. get_property data (js ''type'') = Inr t
       \<and> t \<noteq> Some (JString (js ''kFrequencyStateUpdate''))
       \<and> t \<noteq> Some (JString (js ''kRxBegin'')) \<and> t \<noteq> Some (JString (js ''kRxEnd''))
       \<and> t \<noteq> Some (JString (js ''kTxBegin'')) \<and> t \<noteq> Some (JString (js ''kTxEnd''))"
  by (auto simp add: tag_not_among_def incoming_kinds_def split: sum.splits option.splits)

text \<open>
  C7. On a frame that parses as JSON and whose type tag is not one of the message
  kinds (a value without a member \<open>type\<close>, or one that is not an object, has the tag
  \<^verbatim>\<open>undefined\<close>), \<open>processMessage\<close> logs the frame and returns: it does not raise and
  it emits no event.
\<close>

theorem unrecognized_kind_is_ignored:
  "JSON_parse message = Some data \<Longrightarrow> tag_not_among data incoming_kinds \<Longrightarrow>
     processMessage message s = Inr (console_log (js ''received: '' @ message) s)
     \<and> returns (processMessage message s)
     \<and> emitted (final (processMessage message s)) = emitted s"
proof -
  assume parsed: "JSON_parse message = Some data" and other: "tag_not_among data incoming_kinds"
  from tag_not_among_incoming [OF other] obtain t where
    "get_property data (js ''type'') = Inr t"
    "t \<noteq> Some (JString (js ''kFrequencyStateUpdate''))"
    "t \<noteq> Some (JString (js ''kRxBegin''))" "t \<noteq> Some (JString (js ''kRxEnd''))"
    "t \<noteq> Some (JString (js ''kTxBegin''))" "t \<noteq> Some (JString (js ''kTxEnd''))"
    by blast
  with parsed have "processMessage message s = Inr (console_log (js ''received: '' @ message) s)"
    by (simp add: processMessage_cases)
  then show ?thesis by (simp add: console_log_def)
qed

text \<open>
  A frame of a kind the messages module does not know, and a frame without a type tag.
\<close>

theorem unrecognized_kind_is_ignored_witness:
  \<open>JSON_parse (js ''{"type":"kVoiceConnectedState","value":{"connected":true}}'')
     = Some (JObject [(js ''type'', JString (js ''kVoiceConnectedState'')),
         (js ''value'', JObject [(js ''connected'', JBool True)])])
   \<and> tag_not_among (JObject [(js ''type'', JString (js ''kVoiceConnectedState'')),
         (js ''value'', JObject [(js ''connected'', JBool True)])]) incoming_kinds
   \<and> returns (processMessage (js ''{"type":"kVoiceConnectedState","value":{"connected":true}}'')
         new_TrackAudioManager)
   \<and> emitted (final (processMessage (js ''{"type":"kVoiceConnectedState","value":{"connected":true}}'')
         new_TrackAudioManager)) = []
   \<and> tag_not_among (JArray [JNumber (js ''1''), JObject [(js ''a'', JString (js ''b''))]]) incoming_kinds
   \<and> emitted (final (processMessage (js ''[1, {"a": "b"}]'') new_TrackAudioManager)) = []\<close>
  using unrecognized_kind_is_ignored
    [of \<open>js ''{"type":"kVoiceConnectedState","value":{"connected":true}}''\<close>
      "JObject [(js ''type'', JString (js ''kVoiceConnectedState'')),
         (js ''value'', JObject [(js ''connected'', JBool True)])]"
      new_TrackAudioManager]
    unrecognized_kind_is_ignored
    [of \<open>js ''[1, {"a": "b"}]''\<close>
      "JArray [JNumber (js ''1''), JObject [(js ''a'', JString (js ''b''))]]"
      new_TrackAudioManager]
  by (simp add: parse_unknown parse_untagged tag_not_among_def incoming_kinds_def
      new_TrackAudioManager_def console_log_def)

subsection \<open>Station states\<close>

text \<open>
  C4, as stated: \<open>processMessage\<close> routes a \<open>kStationStateUpdate\<close> message and the
  items of a \<open>kStationStates\<close> message onward. It has no arm for either: the guards
  \<open>isStationStateUpdate\<close> and \<open>isStationStates\<close> hold of the two frames below, and
  \<open>processMessage\<close> returns on each without emitting anything.
\<close>

theorem station_state_frames_not_emitted:
  \<open>map_option isStationStateUpdate
      (JSON_parse (js ''{"type":"kStationStateUpdate","value":{"callsign":"DAL123","frequency":121500000,"tx":false,"rx":true,"xc":false,"headset":true}}''))
     = Some (Inr True)
   \<and> returns (processMessage (js ''{"type":"kStationStateUpdate","value":{"callsign":"DAL123","frequency":121500000,"tx":false,"rx":true,"xc":false,"headset":true}}'') new_TrackAudioManager)
   \<and> emitted (final (processMessage (js ''{"type":"kStationStateUpdate","value":{"callsign":"DAL123","frequency":121500000,"tx":false,"rx":true,"xc":false,"headset":true}}'') new_TrackAudioManager))
     = []
   \<and> map_option isStationStates
      (JSON_parse (js ''{"type":"kStationStates","value":{"stations":[{"type":"kStationStateUpdate","value":{"callsign":"DAL123","frequency":121500000,"tx":false,"rx":true,"xc":false,"headset":true}}]}}''))
     = Some (Inr True)
   \<and> returns (processMessage (js ''{"type":"kStationStates","value":{"stations":[{"type":"kStationStateUpdate","value":{"callsign":"DAL123","frequency":121500000,"tx":false,"rx":true,"xc":false,"headset":true}}]}}'') new_TrackAudioManager)
   \<and> emitted (final (processMessage (js ''{"type":"kStationStates","value":{"stations":[{"type":"kStationStateUpdate","value":{"callsign":"DAL123","frequency":121500000,"tx":false,"rx":true,"xc":false,"headset":true}}]}}'') new_TrackAudioManager))
     = []\<close>
  by (simp add: processMessage_cases parse_station_state_update parse_station_states
      isStationStateUpdate_def isStationStates_def type_is_def new_TrackAudioManager_def
      console_log_def)

text \<open>
  C4, amended. A message that \<open>isStationStateUpdate\<close> or \<open>isStationStates\<close> accepts
  is logged by \<open>processMessage\<close> and dropped: it returns normally and emits no event.
\<close>

theorem station_state_frames_are_dropped:
  "JSON_parse message = Some data \<Longrightarrow>
   isStationStateUpdate data = Inr True \<or> isStationStates data = Inr True \<Longrightarrow>
     processMessage message s = Inr (console_log (js ''received: '' @ message) s)
     \<and> emitted (final (processMessage message s)) = emitted s"
proof -
  assume parsed: "JSON_parse message = Some data"
    and station: "isStationStateUpdate data = Inr True \<or> isStationStates data = Inr True"
  have differ: "js ''kStationStateUpdate'' \<notin> set (map js [''kFrequencyStateUpdate'', ''kRxBegin'',
        ''kRxEnd'', ''kTxBegin'', ''kTxEnd''])"
    "js ''kStationStates'' \<notin> set (map js [''kFrequencyStateUpdate'', ''kRxBegin'',
        ''kRxEnd'', ''kTxBegin'', ''kTxEnd''])"
    by (simp_all add:)
  from station have "get_property data (js ''type'') = Inr (Some (JString (js ''kStationStateUpdate'')))
      \<or> get_property data (js ''type'') = Inr (Some (JString (js ''kStationStates'')))"
    by (auto simp add: isStationStateUpdate_def isStationStates_def type_is_def split: sum.splits)
  with parsed differ have "processMessage message s = Inr (console_log (js ''received: '' @ message) s)"
    by (auto simp add: processMessage_cases)
  then show ?thesis by (simp add: console_log_def)
qed

text \<open>The two frames above, decoded, on a manager that has connected.\<close>

theorem station_state_frames_are_dropped_witness:
  \<open>JSON_parse (js ''{"type":"kStationStateUpdate","value":{"callsign":"DAL123","frequency":121500000,"tx":false,"rx":true,"xc":false,"headset":true}}'')
     = Some (JObject [(js ''type'', JString (js ''kStationStateUpdate'')),
       (js ''value'', JObject [(js ''callsign'', JString (js ''DAL123'')),
          (js ''frequency'', JNumber (js ''121500000'')),
          (js ''tx'', JBool False), (js ''rx'', JBool True), (js ''xc'', JBool False),
          (js ''headset'', JBool True)])])
   \<and> isStationStateUpdate (JObject [(js ''type'', JString (js ''kStationStateUpdate'')),
       (js ''value'', JObject [(js ''callsign'', JString (js ''DAL123'')),
          (js ''frequency'', JNumber (js ''121500000'')),
          (js ''tx'', JBool False), (js ''rx'', JBool True), (js ''xc'', JBool False),
          (js ''headset'', JBool True)])])
       = Inr True
   \<and> emitted (final (processMessage (js ''{"type":"kStationStateUpdate","value":{"callsign":"DAL123","frequency":121500000,"tx":false,"rx":true,"xc":false,"headset":true}}'')
         (final (connect accepts_all new_TrackAudioManager))))
       = emitted (final (connect accepts_all new_TrackAudioManager))
   \<and> isStationStates (JObject [(js ''type'', JString (js ''kStationStates'')),
       (js ''value'', JObject [(js ''stations'', JArray [
          JObject [(js ''type'', JString (js ''kStationStateUpdate'')),
            (js ''value'', JObject [(js ''callsign'', JString (js ''DAL123'')),
               (js ''frequency'', JNumber (js ''121500000'')),
               (js ''tx'', JBool False), (js ''rx'', JBool True), (js ''xc'', JBool False),
               (js ''headset'', JBool True)])]])])])
       = Inr True
   \<and> emitted (final (processMessage (js ''{"type":"kStationStates","value":{"stations":[{"type":"kStationStateUpdate","value":{"callsign":"DAL123","frequency":121500000,"tx":false,"rx":true,"xc":false,"headset":true}}]}}'')
         (final (connect accepts_all new_TrackAudioManager))))
       = emitted (final (connect accepts_all new_TrackAudioManager))\<close>
  using station_state_frames_are_dropped
    [of \<open>js ''{"type":"kStationStateUpdate","value":{"callsign":"DAL123","frequency":121500000,"tx":false,"rx":true,"xc":false,"headset":true}}''\<close>
      "JObject [(js ''type'', JString (js ''kStationStateUpdate'')),
       (js ''value'', JObject [(js ''callsign'', JString (js ''DAL123'')),
          (js ''frequency'', JNumber (js ''121500000'')),
          (js ''tx'', JBool False), (js ''rx'', JBool True), (js ''xc'', JBool False),
          (js ''headset'', JBool True)])]"
      "final (connect accepts_all new_TrackAudioManager)"]
    station_state_frames_are_dropped
    [of \<open>js ''{"type":"kStationStates","value":{"stations":[{"type":"kStationStateUpdate","value":{"callsign":"DAL123","frequency":121500000,"tx":false,"rx":true,"xc":false,"headset":true}}]}}''\<close>
      "JObject [(js ''type'', JString (js ''kStationStates'')),
       (js ''value'', JObject [(js ''stations'', JArray [
          JObject [(js ''type'', JString (js ''kStationStateUpdate'')),
            (js ''value'', JObject [(js ''callsign'', JString (js ''DAL123'')),
               (js ''frequency'', JNumber (js ''121500000'')),
               (js ''tx'', JBool False), (js ''rx'', JBool True), (js ''xc'', JBool False),
               (js ''headset'', JBool True)])]])])]"
      "final (connect accepts_all new_TrackAudioManager)"]
  by (simp add: parse_station_state_update parse_station_states isStationStateUpdate_def
      isStationStates_def type_is_def console_log_def)

section \<open>A send while the socket is not open\<close>

text \<open>No method of the manager reads the console: a run does the same with and without it.\<close>

lemma quiet_tests [simp]:
  "socket_in_use (quiet s) = socket_in_use s"
  "socket_is_open (quiet s) = socket_is_open s"
  "listens sid n (quiet s) = listens sid n s"
  "pending t (quiet s) = pending t s"
  by (simp_all add: quiet_def socket_in_use_def socket_is_open_def socket_at_def listens_def pending_def
      split: option.splits)

lemma quiet_quiet [simp]: "quiet (quiet s) = quiet s"
  by (simp add: quiet_def)

lemma quiet_console [simp]:
  "quiet (console_log l s) = quiet s"
  "quiet (console_warn l s) = quiet s"
  "quiet (console_error l s) = quiet s"
  by (simp_all add: quiet_def console_log_def console_warn_def console_error_def)

lemma quiet_basic:
  "quiet (emit n p s) = emit n p (quiet s)"
  "quiet (map_socket sid f s) = map_socket sid f (quiet s)"
  "quiet (setUrl u s) = setUrl u (quiet s)"
  "quiet (expire t s) = expire t (quiet s)"
  "quiet (reconnect s) = reconnect (quiet s)"
  "quiet (disconnect s) = disconnect (quiet s)"
  by (simp_all add: quiet_def emit_def map_socket_def setUrl_def expire_def reconnect_def
      setTimeout_def disconnect_def ws_close_def clearTimeout_def Let_def split: option.splits)

lemma quiet_connect:
  "quiet_result (connect valid_url s) = quiet_result (connect valid_url (quiet s))"
  by (simp add: connect_def quiet_result_def)
     (simp add: quiet_def new_WebSocket_def on_def map_socket_def clearTimeout_def Let_def
       split: option.splits)

lemma quiet_send: "quiet (send d s) = quiet (send d (quiet s))"
  by (simp add: send_def)
     (simp add: quiet_def ws_send_def map_socket_def split: option.splits)

lemma quiet_processMessage:
  "quiet_result (processMessage m s) = quiet_result (processMessage m (quiet s))"
  by (simp add: processMessage_cases quiet_result_def quiet_basic split: option.splits sum.splits)

lemma quiet_reconnect_callback:
  "quiet_result (reconnect_callback valid_url s) = quiet_result (reconnect_callback valid_url (quiet s))"
proof -
  have "quiet_result (reconnect_callback valid_url s)
      = quiet_result (connect valid_url (quiet (console_log (js ''Attempting to reconnect...'') s)))"
    unfolding reconnect_callback_def by (rule quiet_connect)
  also have "\<dots> = quiet_result (connect valid_url
      (quiet (console_log (js ''Attempting to reconnect...'') (quiet s))))"
    by simp
  also have "\<dots> = quiet_result (reconnect_callback valid_url (quiet s))"
    unfolding reconnect_callback_def by (rule quiet_connect [symmetric])
  finally show ?thesis .
qed

lemma quiet_step: "quiet_result (step valid_url e s) = quiet_result (step valid_url e (quiet s))"
proof (cases e)
  case CallConnect
  then show ?thesis using quiet_connect [of valid_url s] by simp
next
  case (CallSend d)
  then show ?thesis using quiet_send [of d s] by (simp add: quiet_result_def)
next
  case (SocketMessage sid m)
  then show ?thesis using quiet_processMessage [of m s] by (simp add: quiet_result_def)
next
  case (TimerExpires t)
  then show ?thesis
    using quiet_reconnect_callback [of valid_url "expire t s"]
    by (simp add: quiet_result_def quiet_basic)
qed (simp_all add: quiet_result_def quiet_basic set_readyState_def socket_on_open_def
      socket_on_close_def socket_on_error_def)

lemma quiet_run:
  "quiet_result (run valid_url evs s) = quiet_result (run valid_url evs (quiet s))"
proof (induction evs arbitrary: s)
  case Nil
  show ?case by (simp add: quiet_result_def)
next
  case (Cons e es)
  show ?case
  proof (cases "step valid_url e s")
    case (Inl x)
    with quiet_step [of valid_url e s] show ?thesis
      by (auto simp add: quiet_result_def split: sum.splits prod.splits)
  next
    case (Inr s1)
    with quiet_step [of valid_url e s] obtain s2
      where s2: "step valid_url e (quiet s) = Inr s2" "quiet s2 = quiet s1"
      by (auto simp add: quiet_result_def split: sum.splits prod.splits)
    have "quiet_result (run valid_url es s1) = quiet_result (run valid_url es (quiet s1))"
      by (rule Cons.IH)
    also have "\<dots> = quiet_result (run valid_url es s2)" using Cons.IH [of s2] s2 by simp
    finally show ?thesis using Inr s2 by simp
  qed
qed

lemma quiet_result_fields:
  "sockets (final (quiet_result r)) = sockets (final r)"
  "emitted (final (quiet_result r)) = emitted (final r)"
  "timers (final (quiet_result r)) = timers (final r)"
  "returns (quiet_result r) = returns r"
  by (simp_all add: quiet_result_def quiet_def final_def returns_def split: sum.splits prod.splits)

text \<open>
  C6. \<open>send\<close> on a manager whose socket is absent or not OPEN only writes a warning to
  the console: no socket is handed a frame and no other field of the state changes.
  Nothing is kept for later: whatever calls and events follow, every socket (its state
  and the frames handed to it) ends as it does when the \<open>send\<close> is left out. \<open>send\<close>
  returns a state on every input: it never throws.
\<close>

theorem send_not_open_is_noop:
  "\<not> socket_is_open s \<Longrightarrow>
     send data s = s\<lparr>console := console s @ [ConsoleWarn (js ''WebSocket is not connected.'')]\<rparr>
     \<and> sockets (send data s) = sockets s
     \<and> (\<forall>valid_url evs. sockets (final (run valid_url evs (send data s)))
          = sockets (final (run valid_url evs s)))"
proof -
  assume closed: "\<not> socket_is_open s"
  then have now: "send data s
      = s\<lparr>console := console s @ [ConsoleWarn (js ''WebSocket is not connected.'')]\<rparr>"
    by (simp add: send_def console_warn_def)
  have later: "sockets (final (run valid_url evs (send data s)))
      = sockets (final (run valid_url evs s))" for valid_url evs
  proof -
    from closed have "quiet (send data s) = quiet s" by (simp add: send_def)
    then have "quiet_result (run valid_url evs (send data s)) = quiet_result (run valid_url evs s)"
      using quiet_run [of valid_url evs "send data s"] quiet_run [of valid_url evs s] by simp
    then show ?thesis using quiet_result_fields(1) by metis
  qed
  from now later show ?thesis by simp
qed

text \<open>
  Before any \<open>connect\<close> (no socket), and on a socket that is still CONNECTING: the
  message is not sent when the socket opens, and a later \<open>send\<close> transmits its own
  message only.
\<close>

theorem send_not_open_is_noop_witness:
  "\<not> socket_is_open new_TrackAudioManager
   \<and> \<not> socket_is_open (final (connect accepts_all new_TrackAudioManager))
   \<and> map sent (sockets (send (JObject [(js ''type'', JString (js ''kGetStationStates''))])
        (final (connect accepts_all new_TrackAudioManager)))) = [[]]
   \<and> map sent (sockets (final (run accepts_all [SocketOpen 0, CallSend (JBool True)]
        (send (JObject [(js ''type'', JString (js ''kGetStationStates''))])
          (final (connect accepts_all new_TrackAudioManager))))))
      = [[js ''true'']]"
  using send_not_open_is_noop [of "final (connect accepts_all new_TrackAudioManager)"
      "JObject [(js ''type'', JString (js ''kGetStationStates''))]"]
    send_not_open_is_noop [of "new_TrackAudioManager" "JNull"]
  by (simp add: manager_defs)

end
